theory Spec2Isabelle
  imports Main "HOL-Library.Finite_Map" "HOL-Library.Sublist"
begin

section \<open>JavaScript values\<close>

text \<open>
  The values the AwsLambdaFunction component handles. Numbers occur only under equality,
  so they are integers here. A \<open>Buffer\<close> holds an archive, given by its entries (path
  inside the archive, bytes). An object is a finite map from property names to values, so
  that HOL equality on \<open>jsval\<close> is deep, key-order-insensitive equality.
\<close>

datatype jsval =
    Undefined
  | Null
  | Bool bool
  | Num int
  | Str string
  | Buffer "(string \<times> string) list"
  | Arr "jsval list"
  | Obj "(string, jsval) fmap"

type_synonym jsobj = "(string, jsval) fmap"

text \<open>
  What a function can throw: a TypeError (a property read on \<open>undefined\<close> or \<open>null\<close>),
  the rejection of a collaborator's promise (an Error with a message), and
  \<open>new Error(error)\<close> wrapped around a caught error. Only a rejection reaches the one
  place that reads \<open>error.message\<close> (the handler of \<open>remove\<close>); the other two messages
  are given for completeness.
\<close>

datatype js_error = TypeError | Failure string | ErrorOf js_error

fun message :: "js_error \<Rightarrow> string" where
  "message (Failure m) = m"
| "message TypeError = ''Cannot read property of undefined''"
| "message (ErrorOf e) = ''Error: '' @ message e"

text \<open>\<open>obj.k\<close> on an object: \<open>undefined\<close> when the object has no such property.\<close>

definition property :: "jsobj \<Rightarrow> string \<Rightarrow> jsval" where
  "property obj k = (case fmlookup obj k of None \<Rightarrow> Undefined | Some v \<Rightarrow> v)"

text \<open>
  \<open>v.k\<close> on any value, as in \<open>prevInstance.role.roleName\<close>: a TypeError on \<open>undefined\<close>
  and \<open>null\<close>, the property of an object, \<open>undefined\<close> on every other value (none of them
  has a \<open>roleName\<close>).
\<close>

fun dot :: "jsval \<Rightarrow> string \<Rightarrow> js_error + jsval" where
  "dot Undefined k = Inl TypeError"
| "dot Null k = Inl TypeError"
| "dot (Obj obj) k = Inr (property obj k)"
| "dot v k = Inr Undefined"

text \<open>On an array: \<open>v[0]\<close>, which is \<open>undefined\<close> on the empty array, and the clone of the
  array with its first item shifted off (\<open>slice\<close> then \<open>shift\<close>).\<close>

definition index0 :: "jsval \<Rightarrow> jsval" where
  "index0 v = (case v of Arr (x # xs) \<Rightarrow> x | _ \<Rightarrow> Undefined)"

definition shifted :: "jsval \<Rightarrow> jsval list" where
  "shifted v = (case v of Arr xs \<Rightarrow> tl xs | _ \<Rightarrow> [])"

text \<open>\<open>s.includes(pat)\<close>: \<open>pat\<close> occurs in \<open>s\<close> as a contiguous substring.\<close>

fun includes_str :: "string \<Rightarrow> string \<Rightarrow> bool" where
  "includes_str [] pat = (pat = [])"
| "includes_str (c # cs) pat = (prefix pat (c # cs) \<or> includes_str cs pat)"

definition path_join :: "string \<Rightarrow> string \<Rightarrow> string" where
  "path_join dir file = dir @ ''/'' @ file"

subsection \<open>Helpers imported from the utilities package\<close>

text \<open>
  Modelled from the spec: \<open>resolve\<close>, \<open>get\<close>, \<open>isArray\<close>, \<open>keys\<close>, \<open>pick\<close> and \<open>equals\<close> are
  imported by the component from its utilities package, which is not among the sources.
  The spec has late-bound values resolved to a plain snapshot before normalisation: the
  values of this model are plain already, so \<open>resolve\<close> returns its argument. The prior
  instance is projected onto the field set of the current record (a field the prior
  instance lacks is left out of the projection) and compared by deep equality.
\<close>

definition resolve :: "'a \<Rightarrow> 'a" where
  "resolve v = v"

definition get :: "string \<Rightarrow> jsobj option \<Rightarrow> jsval" where
  "get k obj = (case obj of None \<Rightarrow> Undefined | Some m \<Rightarrow> property m k)"

definition isArray :: "jsval \<Rightarrow> bool" where
  "isArray v = (case v of Arr _ \<Rightarrow> True | _ \<Rightarrow> False)"

definition keys :: "jsobj \<Rightarrow> string fset" where
  "keys obj = fmdom obj"

definition pick :: "string fset \<Rightarrow> jsobj \<Rightarrow> jsobj" where
  "pick ks obj = fmrestrict_fset ks obj"

definition equals :: "jsobj \<Rightarrow> jsobj \<Rightarrow> bool" where
  "equals a b = (a = b)"

section \<open>The component instance\<close>

text \<open>
  The identity reference (an AwsIamRole instance) and the instance of the component
  (\<open>this\<close>). The name of the function and the name of the role are strings; every other
  input is an arbitrary value, \<open>undefined\<close> when it was not given. \<open>role\<close> is \<open>None\<close>
  while the instance has no identity reference. The prior instance is an object read back
  from the recorded state (\<open>None\<close> when there is none): it may lack any property. The
  \<open>provider\<close> field serves only to obtain the client of the provider, which the
  operations below take from their \<open>world\<close>.
\<close>

record iam_role =
  roleName :: string
  role_arn :: jsval

record lambda_function =
  instanceId :: string
  role :: "iam_role option"
  functionName :: string
  functionDescription :: jsval
  handler :: jsval
  code :: jsval
  runtime :: jsval
  memorySize :: jsval
  timeout :: jsval
  environment :: jsval
  tags :: jsval
  hash :: string
  arn :: jsval
  zipBuffer :: jsval

record lambda_inputs =
  in_role :: "iam_role option"
  in_functionName :: string
  in_functionDescription :: jsval
  in_handler :: jsval
  in_code :: jsval
  in_runtime :: jsval
  in_memorySize :: jsval
  in_timeout :: jsval
  in_environment :: jsval
  in_tags :: jsval

section \<open>Collaborators\<close>

text \<open>
  The calls of the provider's client. The client is a function from the call to the
  rejection message or the response object; within one operation no call is made twice,
  so a client whose answers depend on the earlier calls is covered.
\<close>

datatype call =
    createFunction jsobj
  | updateFunctionCode jsobj
  | updateFunctionConfiguration jsobj
  | deleteFunction jsobj

text \<open>
  The file system gives, for a directory path, the files below it (path relative to the
  directory, bytes). \<open>hashElement\<close> is the fingerprint collaborator with its options;
  \<open>packDir\<close> stands for the archive collaborator together with \<open>readFileSync\<close> of the file
  it wrote: its result is the archive read back from the output path.
\<close>

type_synonym entries = "(string \<times> string) list"

type_synonym filesystem = "string \<Rightarrow> entries"

record hash_options =
  folders_exclude :: "string list"

record world =
  fs :: filesystem
  hashElement :: "filesystem \<Rightarrow> jsval \<Rightarrow> hash_options \<Rightarrow> string + string"
  packDir :: "filesystem \<Rightarrow> jsval \<Rightarrow> string \<Rightarrow> jsval list \<Rightarrow> string + entries"
  Lambda :: "call \<Rightarrow> string + jsobj"
  tmpdir :: string
  now :: string

text \<open>What an operation leaves behind: the provider calls it issued, in order, the
  progress lines it logged, and its result.\<close>

record 'a run =
  calls :: "call list"
  logs :: "string list"
  result :: "js_error + 'a"

section \<open>Provider calls\<close>

definition createParams :: "lambda_function \<Rightarrow> iam_role \<Rightarrow> jsobj" where
  "createParams this r = fmap_of_list
     [(''FunctionName'', Str (functionName this)),
      (''Code'', Obj (fmap_of_list [(''ZipFile'', zipBuffer this)])),
      (''Description'', functionDescription this),
      (''Handler'', handler this),
      (''MemorySize'', memorySize this),
      (''Publish'', Bool True),
      (''Role'', role_arn r),
      (''Runtime'', runtime this),
      (''Timeout'', timeout this),
      (''Environment'', Obj (fmap_of_list [(''Variables'', environment this)]))]"

definition createLambda ::
  "(call \<Rightarrow> string + jsobj) \<Rightarrow> lambda_function \<Rightarrow> call list \<times> (js_error + jsval)" where
  "createLambda L this =
     (case role this of
        None \<Rightarrow> ([], Inl TypeError)
      | Some r \<Rightarrow>
          (let params = createParams this r in
           case L (createFunction params) of
             Inl m \<Rightarrow> ([createFunction params], Inl (Failure m))
           | Inr res \<Rightarrow> ([createFunction params], Inr (property res ''FunctionArn''))))"

definition functionCodeParams :: "lambda_function \<Rightarrow> jsobj" where
  "functionCodeParams this = fmap_of_list
     [(''FunctionName'', Str (functionName this)),
      (''ZipFile'', zipBuffer this),
      (''Publish'', Bool True)]"

definition functionConfigParams :: "lambda_function \<Rightarrow> iam_role \<Rightarrow> jsobj" where
  "functionConfigParams this r = fmap_of_list
     [(''FunctionName'', Str (functionName this)),
      (''Description'', functionDescription this),
      (''Handler'', handler this),
      (''MemorySize'', memorySize this),
      (''Role'', role_arn r),
      (''Runtime'', runtime this),
      (''Timeout'', timeout this),
      (''Environment'', Obj (fmap_of_list [(''Variables'', environment this)]))]"

definition updateLambda ::
  "(call \<Rightarrow> string + jsobj) \<Rightarrow> lambda_function \<Rightarrow> call list \<times> (js_error + jsval)" where
  "updateLambda L this =
     (case role this of
        None \<Rightarrow> ([], Inl TypeError)
      | Some r \<Rightarrow>
          (let c1 = updateFunctionCode (functionCodeParams this);
               c2 = updateFunctionConfiguration (functionConfigParams this r) in
           case L c1 of
             Inl m \<Rightarrow> ([c1], Inl (Failure m))
           | Inr _ \<Rightarrow>
               (case L c2 of
                  Inl m \<Rightarrow> ([c1, c2], Inl (Failure m))
                | Inr res \<Rightarrow> ([c1, c2], Inr (property res ''FunctionArn'')))))"

definition deleteLambda ::
  "(call \<Rightarrow> string + jsobj) \<Rightarrow> string \<Rightarrow> call list \<times> (js_error + unit)" where
  "deleteLambda L name =
     (let params = fmap_of_list [(''FunctionName'', Str name)] in
      case L (deleteFunction params) of
        Inl m \<Rightarrow> ([deleteFunction params], Inl (Failure m))
      | Inr _ \<Rightarrow> ([deleteFunction params], Inr ()))"

section \<open>The component's methods\<close>

definition options :: hash_options where
  "options = \<lparr>folders_exclude = [''node_modules'']\<rparr>"

definition folderToHash :: "jsval \<Rightarrow> jsval" where
  "folderToHash c = (if isArray c then index0 c else c)"

text \<open>
  \<open>construct\<close>: the base class's \<open>construct\<close> (not among the sources, a parameter) gives
  the instance as the base class initialises it; the inputs are stored and the fingerprint
  is computed from the code location.
\<close>

definition construct ::
  "(lambda_inputs \<Rightarrow> js_error + lambda_function) \<Rightarrow> world \<Rightarrow> lambda_inputs
     \<Rightarrow> js_error + lambda_function" where
  "construct super_construct w inputs =
     (case super_construct inputs of
        Inl e \<Rightarrow> Inl e
      | Inr base \<Rightarrow>
          (let this = base
                 \<lparr>role := in_role inputs,
                  functionName := in_functionName inputs,
                  functionDescription := in_functionDescription inputs,
                  handler := in_handler inputs,
                  code := resolve (in_code inputs),
                  runtime := in_runtime inputs,
                  memorySize := in_memorySize inputs,
                  timeout := in_timeout inputs,
                  environment := in_environment inputs,
                  tags := in_tags inputs\<rparr>
           in case hashElement w (fs w) (folderToHash (code this)) options of
                Inl m \<Rightarrow> Inl (Failure m)
              | Inr h \<Rightarrow> Inr (this\<lparr>hash := h\<rparr>)))"

text \<open>\<open>hydrate\<close>: after the base class's \<open>hydrate\<close> (a parameter), the remote identifier
  is read from the prior instance.\<close>

definition hydrate ::
  "(lambda_function \<Rightarrow> jsobj option \<Rightarrow> lambda_function) \<Rightarrow> lambda_function \<Rightarrow> jsobj option
     \<Rightarrow> lambda_function" where
  "hydrate super_hydrate this prevInstance =
     (super_hydrate this prevInstance)\<lparr>arn := get ''arn'' prevInstance\<rparr>"

datatype decision = Replace | Deploy | NoOp

definition currentConfig :: "lambda_function \<Rightarrow> jsobj" where
  "currentConfig this = fmap_of_list
     [(''functionName'', Str (resolve (functionName this))),
      (''functionDescription'', resolve (functionDescription this)),
      (''handler'', resolve (handler this)),
      (''code'', resolve (code this)),
      (''runtime'', resolve (runtime this)),
      (''memorySize'', resolve (memorySize this)),
      (''timeout'', resolve (timeout this)),
      (''hash'', Str (resolve (hash this))),
      (''tags'', resolve (tags this))]"

definition configChanged :: "lambda_function \<Rightarrow> jsobj option \<Rightarrow> bool" where
  "configChanged this prevInstance =
     (let prevConfig =
        (case prevInstance of
           Some prev \<Rightarrow> pick (keys (currentConfig this)) prev
         | None \<Rightarrow> fmempty)
      in \<not> equals (currentConfig this) prevConfig)"

definition roleChanged :: "lambda_function \<Rightarrow> jsobj option \<Rightarrow> js_error + bool" where
  "roleChanged this prevInstance =
     (case prevInstance of
        None \<Rightarrow> Inr True
      | Some prev \<Rightarrow>
          (case resolve (role this) of
             None \<Rightarrow> Inl TypeError
           | Some r \<Rightarrow>
               (case dot (property prev ''role'') ''roleName'' of
                  Inl e \<Rightarrow> Inl e
                | Inr prevName \<Rightarrow> Inr (Str (roleName r) \<noteq> prevName))))"

text \<open>\<open>shouldDeploy\<close>: \<open>'replace'\<close>, \<open>'deploy'\<close>, or no value (\<open>NoOp\<close>) when the method
  falls through. Both changes are computed before the rules are tried.\<close>

definition shouldDeploy :: "lambda_function \<Rightarrow> jsobj option \<Rightarrow> js_error + decision" where
  "shouldDeploy this prevInstance =
     (let cc = configChanged this prevInstance in
      case roleChanged this prevInstance of
        Inl e \<Rightarrow> Inl e
      | Inr rc \<Rightarrow>
          (case prevInstance of
             Some prev \<Rightarrow>
               if property prev ''functionName'' \<noteq> Str (resolve (functionName this)) then Inr Replace
               else if cc \<or> rc then Inr Deploy
               else Inr NoOp
           | None \<Rightarrow> Inr Deploy))"

definition getId :: "lambda_function \<Rightarrow> jsval" where
  "getId this = arn this"

definition pack :: "world \<Rightarrow> lambda_function \<Rightarrow> js_error + lambda_function" where
  "pack w this =
     (let inputDirPath = (if isArray (code this) then index0 (code this) else code this);
          shims = (if isArray (code this) then shifted (code this) else []);
          outputFileName = instanceId this @ ''-'' @ now w @ ''.zip'';
          outputFilePath = path_join (tmpdir w) outputFileName
      in case packDir w (fs w) inputDirPath outputFilePath shims of
           Inl m \<Rightarrow> Inl (Failure m)
         | Inr archive \<Rightarrow> Inr (this\<lparr>zipBuffer := Buffer archive\<rparr>))"

definition deploy :: "world \<Rightarrow> lambda_function \<Rightarrow> jsobj option \<Rightarrow> lambda_function run" where
  "deploy w this prevInstance =
     (case pack w this of
        Inl e \<Rightarrow> \<lparr>calls = [], logs = [], result = Inl e\<rparr>
      | Inr packed \<Rightarrow>
          if (case prevInstance of
                None \<Rightarrow> True
              | Some prev \<Rightarrow> Str (functionName packed) \<noteq> property prev ''functionName'')
          then
            (case createLambda (Lambda w) packed of
               (cs, Inl e) \<Rightarrow>
                 \<lparr>calls = cs, logs = [''Creating Lambda: '' @ functionName packed],
                  result = Inl e\<rparr>
             | (cs, Inr a) \<Rightarrow>
                 \<lparr>calls = cs, logs = [''Creating Lambda: '' @ functionName packed],
                  result = Inr (packed\<lparr>arn := a\<rparr>)\<rparr>)
          else
            (case updateLambda (Lambda w) packed of
               (cs, Inl e) \<Rightarrow>
                 \<lparr>calls = cs, logs = [''Updating Lambda: '' @ functionName packed],
                  result = Inl e\<rparr>
             | (cs, Inr a) \<Rightarrow>
                 \<lparr>calls = cs, logs = [''Updating Lambda: '' @ functionName packed],
                  result = Inr (packed\<lparr>arn := a\<rparr>)\<rparr>))"

definition remove :: "world \<Rightarrow> lambda_function \<Rightarrow> unit run" where
  "remove w this =
     (let name = functionName this;
          line = ''Removing Lambda: '' @ name
      in case deleteLambda (Lambda w) name of
           (cs, Inr u) \<Rightarrow> \<lparr>calls = cs, logs = [line], result = Inr ()\<rparr>
         | (cs, Inl error) \<Rightarrow>
             if \<not> includes_str (message error) ''Function not found''
             then \<lparr>calls = cs, logs = [line], result = Inl (ErrorOf error)\<rparr>
             else \<lparr>calls = cs, logs = [line], result = Inr ()\<rparr>)"

section \<open>Paths below an excluded folder\<close>

text \<open>
  The segments of a path (split at \<open>/\<close>); a path lies in a folder when the folder's name
  is one of its directory segments; the entries a walk that skips the excluded folders
  sees.
\<close>

fun segments :: "string \<Rightarrow> string list" where
  "segments [] = [[]]"
| "segments (c # cs) =
     (if c = CHR ''/'' then [] # segments cs
      else (case segments cs of [] \<Rightarrow> [[c]] | s # ss \<Rightarrow> (c # s) # ss))"

definition in_folder :: "string \<Rightarrow> string \<Rightarrow> bool" where
  "in_folder d p = (d \<in> set (butlast (segments p)))"

definition visible :: "string list \<Rightarrow> entries \<Rightarrow> entries" where
  "visible excl es = filter (\<lambda>e. \<not> list_ex (\<lambda>d. in_folder d (fst e)) excl) es"

text \<open>A fingerprint collaborator honours its exclusion list when what lies in the excluded
  folders has no influence on the fingerprint.\<close>

definition honours_exclusion ::
  "(filesystem \<Rightarrow> jsval \<Rightarrow> hash_options \<Rightarrow> string + string) \<Rightarrow> bool" where
  "honours_exclusion h =
     (\<forall>f f' d opts.
        (\<forall>p. visible (folders_exclude opts) (f p) = visible (folders_exclude opts) (f' p))
          \<longrightarrow> h f d opts = h f' d opts)"

section \<open>Sample instances and collaborators\<close>

definition role_a :: iam_role where
  "role_a = \<lparr>roleName = ''fn-a-execution-role'',
             role_arn = Str ''arn:aws:iam::1:role/fn-a-execution-role''\<rparr>"

definition fn_a :: lambda_function where
  "fn_a = \<lparr>instanceId = ''inst-1'',
           role = Some role_a,
           functionName = ''fn-a'',
           functionDescription = Str ''sample function'',
           handler = Str ''index.handler'',
           code = Str ''./code'',
           runtime = Str ''nodejs8.10'',
           memorySize = Num 512,
           timeout = Num 30,
           environment = Obj (fmap_of_list [(''STAGE'', Str ''dev'')]),
           tags = Undefined,
           hash = ''h1'',
           arn = Undefined,
           zipBuffer = Undefined\<rparr>"

definition fn_b :: lambda_function where
  "fn_b = fn_a\<lparr>functionName := ''fn-b'', memorySize := Num 1024\<rparr>"

definition prior_role_a :: jsobj where
  "prior_role_a = fmap_of_list
     [(''roleName'', Str ''fn-a-execution-role''),
      (''arn'', Str ''arn:aws:iam::1:role/fn-a-execution-role'')]"

definition prior_a :: jsobj where
  "prior_a = fmap_of_list
     [(''instanceId'', Str ''inst-1''),
      (''role'', Obj prior_role_a),
      (''functionName'', Str ''fn-a''),
      (''functionDescription'', Str ''sample function''),
      (''handler'', Str ''index.handler''),
      (''code'', Str ''./code''),
      (''runtime'', Str ''nodejs8.10''),
      (''memorySize'', Num 512),
      (''timeout'', Num 30),
      (''environment'', Obj (fmap_of_list [(''STAGE'', Str ''dev'')])),
      (''tags'', Undefined),
      (''hash'', Str ''h1''),
      (''arn'', Str ''arn:aws:lambda:us-east-1:1:function:fn-a'')]"

definition prior_env :: jsobj where
  "prior_env = fmupd ''environment'' (Obj (fmap_of_list [(''STAGE'', Str ''prod'')])) prior_a"

definition prior_rearn :: jsobj where
  "prior_rearn =
     fmupd ''role'' (Obj (fmupd ''arn'' (Str ''arn:aws:iam::1:role/recreated'') prior_role_a))
       prior_a"

definition prior_norole :: jsobj where
  "prior_norole = fmdrop ''role'' prior_a"


definition prior_env_notags :: jsobj where
  "prior_env_notags = fmdrop ''tags'' prior_env"

definition prior_stale_hash :: jsobj where
  "prior_stale_hash = fmupd ''hash'' (Str ''stale'') prior_a"

definition inputs_a :: lambda_inputs where
  "inputs_a = \<lparr>in_role = Some role_a,
               in_functionName = ''fn-a'',
               in_functionDescription = Str ''sample function'',
               in_handler = Str ''index.handler'',
               in_code = Arr [Str ''./code'', Str ''./shim.js''],
               in_runtime = Str ''nodejs8.10'',
               in_memorySize = Num 512,
               in_timeout = Num 30,
               in_environment = Obj (fmap_of_list [(''STAGE'', Str ''dev'')]),
               in_tags = Undefined\<rparr>"

definition base_construct :: "lambda_inputs \<Rightarrow> js_error + lambda_function" where
  "base_construct inputs =
     Inr \<lparr>instanceId = ''inst-1'', role = None, functionName = [],
          functionDescription = Undefined, handler = Undefined, code = Undefined,
          runtime = Undefined, memorySize = Undefined, timeout = Undefined,
          environment = Undefined, tags = Undefined, hash = [], arn = Undefined,
          zipBuffer = Undefined\<rparr>"

definition base_hydrate :: "lambda_function \<Rightarrow> jsobj option \<Rightarrow> lambda_function" where
  "base_hydrate this prevInstance =
     (case get ''instanceId'' prevInstance of
        Str i \<Rightarrow> this\<lparr>instanceId := i\<rparr>
      | _ \<Rightarrow> this)"

definition sample_fs :: filesystem where
  "sample_fs p =
     (if p = ''./code''
      then [(''index.js'', ''exports.handler = run''),
            (''node_modules/dep/index.js'', ''dep v1'')]
      else [])"

definition sample_fs_upgraded :: filesystem where
  "sample_fs_upgraded p =
     (if p = ''./code''
      then [(''index.js'', ''exports.handler = run''),
            (''node_modules/dep/index.js'', ''dep v2''),
            (''node_modules/extra/index.js'', ''extra'')]
      else [])"

definition hash_visible :: "filesystem \<Rightarrow> jsval \<Rightarrow> hash_options \<Rightarrow> string + string" where
  "hash_visible f d opts =
     (case d of
        Str p \<Rightarrow>
          Inr (concat (map (\<lambda>e. fst e @ '':'' @ snd e @ '';'')
                 (visible (folders_exclude opts) (f p))))
      | _ \<Rightarrow> Inl ''ENOENT'')"

definition archive_all ::
  "filesystem \<Rightarrow> jsval \<Rightarrow> string \<Rightarrow> jsval list \<Rightarrow> string + entries" where
  "archive_all f d out shims =
     (case d of
        Str p \<Rightarrow> Inr (f p @ map (\<lambda>s. case s of Str q \<Rightarrow> (q, []) | _ \<Rightarrow> ([], [])) shims)
      | _ \<Rightarrow> Inl ''ENOENT'')"

definition response_a :: jsobj where
  "response_a = fmap_of_list [(''FunctionArn'', Str ''arn:aws:lambda:us-east-1:1:function:fn-a'')]"

definition sample_world :: world where
  "sample_world =
     \<lparr>fs = sample_fs, hashElement = hash_visible, packDir = archive_all,
      Lambda = (\<lambda>c. Inr response_a), tmpdir = ''/tmp'', now = ''1541203200000''\<rparr>"

definition packed_a :: lambda_function where
  "packed_a = fn_a\<lparr>zipBuffer := Buffer
     [(''index.js'', ''exports.handler = run''),
      (''node_modules/dep/index.js'', ''dep v1'')]\<rparr>"

definition constructed_a :: lambda_function where
  "constructed_a =
     \<lparr>instanceId = ''inst-1'',
      role = Some role_a,
      functionName = ''fn-a'',
      functionDescription = Str ''sample function'',
      handler = Str ''index.handler'',
      code = Arr [Str ''./code'', Str ''./shim.js''],
      runtime = Str ''nodejs8.10'',
      memorySize = Num 512,
      timeout = Num 30,
      environment = Obj (fmap_of_list [(''STAGE'', Str ''dev'')]),
      tags = Undefined,
      hash = ''index.js:exports.handler = run;'',
      arn = Undefined,
      zipBuffer = Undefined\<rparr>"

definition pack_fails_world :: world where
  "pack_fails_world = sample_world\<lparr>packDir := (\<lambda>f d out shims. Inl ''EACCES'')\<rparr>"

definition code_update_fails_world :: world where
  "code_update_fails_world =
     sample_world\<lparr>Lambda :=
       (\<lambda>c. case c of updateFunctionCode p \<Rightarrow> Inl ''ServiceException'' | _ \<Rightarrow> Inr response_a)\<rparr>"

definition config_update_fails_world :: world where
  "config_update_fails_world =
     sample_world\<lparr>Lambda :=
       (\<lambda>c. case c of
              updateFunctionConfiguration p \<Rightarrow> Inl ''InvalidParameterValueException''
            | _ \<Rightarrow> Inr response_a)\<rparr>"

definition not_found_world :: world where
  "not_found_world =
     sample_world\<lparr>Lambda :=
       (\<lambda>c. Inl ''ResourceNotFoundException: Function not found: fn-a'')\<rparr>"

definition denied_world :: world where
  "denied_world = sample_world\<lparr>Lambda := (\<lambda>c. Inl ''AccessDeniedException'')\<rparr>"

section \<open>Change detection\<close>

lemma currentConfig_at:
  "fmlookup (currentConfig this) ''functionName'' = Some (Str (functionName this))"
  "fmlookup (currentConfig this) ''functionDescription'' = Some (functionDescription this)"
  "fmlookup (currentConfig this) ''handler'' = Some (handler this)"
  "fmlookup (currentConfig this) ''code'' = Some (code this)"
  "fmlookup (currentConfig this) ''runtime'' = Some (runtime this)"
  "fmlookup (currentConfig this) ''memorySize'' = Some (memorySize this)"
  "fmlookup (currentConfig this) ''timeout'' = Some (timeout this)"
  "fmlookup (currentConfig this) ''hash'' = Some (Str (hash this))"
  "fmlookup (currentConfig this) ''tags'' = Some (tags this)"
  by (simp_all add: currentConfig_def resolve_def)

lemma currentConfig_dom:
  "fmdom (currentConfig this) = fset_of_list
     [''functionName'', ''functionDescription'', ''handler'', ''code'', ''runtime'',
      ''memorySize'', ''timeout'', ''hash'', ''tags'']"
  by (simp add: currentConfig_def fmdom_of_list)

text \<open>The environment is not a key of the normalized record.\<close>

lemma currentConfig_environment: "currentConfig (this\<lparr>environment := e\<rparr>) = currentConfig this"
  by (simp add: currentConfig_def)

text \<open>The configuration counts as changed exactly when the prior instance disagrees with
  the normalized record on one of its keys (lacking the key is disagreeing).\<close>

lemma configChanged_Some:
  "configChanged this (Some prev) \<longleftrightarrow>
     (\<exists>k. k |\<in>| fmdom (currentConfig this)
        \<and> fmlookup prev k \<noteq> fmlookup (currentConfig this) k)"
proof -
  let ?cc = "currentConfig this"
  have "?cc = fmrestrict_fset (fmdom ?cc) prev \<longleftrightarrow>
          (\<forall>k. k |\<in>| fmdom ?cc \<longrightarrow> fmlookup prev k = fmlookup ?cc k)"
    (is "?L \<longleftrightarrow> ?R")
  proof
    assume eq: ?L
    show ?R
    proof (intro allI impI)
      fix k assume "k |\<in>| fmdom ?cc"
      then have "fmlookup (fmrestrict_fset (fmdom ?cc) prev) k = fmlookup prev k"
        by simp
      with eq show "fmlookup prev k = fmlookup ?cc k" by simp
    qed
  next
    assume r: ?R
    show ?L
    proof (rule fmap_ext)
      fix k
      show "fmlookup ?cc k = fmlookup (fmrestrict_fset (fmdom ?cc) prev) k"
      proof (cases "k |\<in>| fmdom ?cc")
        case False
        then show ?thesis by (simp add: fmdom_notD)
      next
        case True
        with r have "fmlookup prev k = fmlookup ?cc k" by blast
        with True show ?thesis by simp
      qed
    qed
  qed
  then show ?thesis
    by (auto simp: configChanged_def keys_def pick_def equals_def)
qed

lemma configChanged_fields:
  "configChanged this (Some prev) \<longleftrightarrow>
     \<not> (fmlookup prev ''functionName'' = Some (Str (functionName this))
      \<and> fmlookup prev ''functionDescription'' = Some (functionDescription this)
      \<and> fmlookup prev ''handler'' = Some (handler this)
      \<and> fmlookup prev ''code'' = Some (code this)
      \<and> fmlookup prev ''runtime'' = Some (runtime this)
      \<and> fmlookup prev ''memorySize'' = Some (memorySize this)
      \<and> fmlookup prev ''timeout'' = Some (timeout this)
      \<and> fmlookup prev ''hash'' = Some (Str (hash this))
      \<and> fmlookup prev ''tags'' = Some (tags this))"
proof -
  have "(\<forall>k. k |\<in>| fmdom (currentConfig this)
            \<longrightarrow> fmlookup prev k = fmlookup (currentConfig this) k)
      \<longleftrightarrow> (\<forall>k \<in> set [''functionName'', ''functionDescription'', ''handler'', ''code'',
                ''runtime'', ''memorySize'', ''timeout'', ''hash'', ''tags''].
             fmlookup prev k = fmlookup (currentConfig this) k)"
    unfolding currentConfig_dom by (simp only: fset_of_list.rep_eq) blast
  also have "\<dots> \<longleftrightarrow> (fmlookup prev ''functionName'' = Some (Str (functionName this))
      \<and> fmlookup prev ''functionDescription'' = Some (functionDescription this)
      \<and> fmlookup prev ''handler'' = Some (handler this)
      \<and> fmlookup prev ''code'' = Some (code this)
      \<and> fmlookup prev ''runtime'' = Some (runtime this)
      \<and> fmlookup prev ''memorySize'' = Some (memorySize this)
      \<and> fmlookup prev ''timeout'' = Some (timeout this)
      \<and> fmlookup prev ''hash'' = Some (Str (hash this))
      \<and> fmlookup prev ''tags'' = Some (tags this))"
    by (simp add: currentConfig_at)
  finally show ?thesis
    unfolding configChanged_Some by blast
qed

lemma property_fmlookup: "fmlookup m k = Some v \<Longrightarrow> property m k = v"
  by (simp add: property_def)

lemma roleChanged_Some:
  "role this = Some r \<Longrightarrow> dot (property prev ''role'') ''roleName'' = Inr prevName \<Longrightarrow>
     roleChanged this (Some prev) = Inr (Str (roleName r) \<noteq> prevName)"
  by (simp add: roleChanged_def resolve_def)

lemma dot_fault: "dot v k = Inl e \<longleftrightarrow> (v = Undefined \<or> v = Null) \<and> e = TypeError"
  by (cases v) auto

lemma roleChanged_fault:
  "roleChanged this (Some prev) = Inl e \<longleftrightarrow>
     e = TypeError \<and> (role this = None \<or> property prev ''role'' = Undefined \<or> property prev ''role'' = Null)"
  by (auto simp: roleChanged_def resolve_def dot_fault split: option.splits sum.splits)

lemma shouldDeploy_Inr:
  "roleChanged this (Some prev) = Inr rc \<Longrightarrow>
     shouldDeploy this (Some prev) =
       (if property prev ''functionName'' \<noteq> Str (functionName this) then Inr Replace
        else if configChanged this (Some prev) \<or> rc then Inr Deploy else Inr NoOp)"
  by (simp add: shouldDeploy_def resolve_def)

lemma shouldDeploy_Inl:
  "roleChanged this prevInstance = Inl e \<Longrightarrow> shouldDeploy this prevInstance = Inl e"
  by (simp add: shouldDeploy_def)

lemma configChanged_environment:
  "configChanged (this\<lparr>environment := e\<rparr>) prevInstance = configChanged this prevInstance"
  by (cases prevInstance) (simp_all add: configChanged_def currentConfig_environment)

lemma roleChanged_environment:
  "roleChanged (this\<lparr>environment := e\<rparr>) prevInstance = roleChanged this prevInstance"
  by (cases prevInstance) (simp_all add: roleChanged_def)

lemma shouldDeploy_environment:
  "shouldDeploy (this\<lparr>environment := e\<rparr>) prevInstance = shouldDeploy this prevInstance"
  by (cases prevInstance)
    (simp_all add: shouldDeploy_def configChanged_environment roleChanged_environment resolve_def
      split: sum.splits)

lemma configChanged_prior_environment:
  "configChanged this (Some (fmupd ''environment'' v prev)) = configChanged this (Some prev)"
proof -
  have "''environment'' |\<notin>| fmdom (currentConfig this)"
    by (simp add: currentConfig_dom)
  then have "pick (keys (currentConfig this)) (fmupd ''environment'' v prev)
      = pick (keys (currentConfig this)) prev"
    unfolding pick_def keys_def by (intro fmap_ext) auto
  then show ?thesis
    by (simp add: configChanged_def)
qed

lemma shouldDeploy_prior_environment:
  "shouldDeploy this (Some (fmupd ''environment'' v prev)) = shouldDeploy this (Some prev)"
proof -
  have "property (fmupd ''environment'' v prev) ''role'' = property prev ''role''"
    by (simp add: property_def)
  then have "roleChanged this (Some (fmupd ''environment'' v prev)) = roleChanged this (Some prev)"
    by (simp add: roleChanged_def split: option.splits)
  moreover have "property (fmupd ''environment'' v prev) ''functionName''
      = property prev ''functionName''"
    by (simp add: property_def)
  ultimately show ?thesis
    by (simp add: shouldDeploy_def configChanged_prior_environment split: sum.splits)
qed

lemma shouldDeploy_same_fields:
  assumes "fmlookup prev ''functionName'' = Some (Str (functionName this))"
    and "fmlookup prev ''functionDescription'' = Some (functionDescription this)"
    and "fmlookup prev ''handler'' = Some (handler this)"
    and "fmlookup prev ''code'' = Some (code this)"
    and "fmlookup prev ''runtime'' = Some (runtime this)"
    and "fmlookup prev ''memorySize'' = Some (memorySize this)"
    and "fmlookup prev ''timeout'' = Some (timeout this)"
    and "fmlookup prev ''hash'' = Some (Str (hash this))"
    and "fmlookup prev ''tags'' = Some (tags this)"
    and "role this = Some r"
    and "dot (property prev ''role'') ''roleName'' = Inr prevName"
  shows "shouldDeploy this (Some prev) = (if Str (roleName r) \<noteq> prevName then Inr Deploy else Inr NoOp)"
proof -
  have "\<not> configChanged this (Some prev)"
    using assms(1-9) by (simp add: configChanged_fields)
  moreover have "property prev ''functionName'' = Str (functionName this)"
    using assms(1) by (rule property_fmlookup)
  ultimately show ?thesis
    by (simp add: shouldDeploy_Inr [OF roleChanged_Some [OF assms(10) assms(11)]])
qed

text \<open>A prior instance that lacks one of the nine fields counts as changed, also when the
  current value of the field is \<open>undefined\<close>.\<close>

lemma shouldDeploy_absent_field:
  assumes "k |\<in>| fmdom (currentConfig this)"
    and "fmlookup prev k = None"
    and "role this = Some r"
    and "dot (property prev ''role'') ''roleName'' = Inr prevName"
    and "property prev ''functionName'' = Str (functionName this)"
  shows "shouldDeploy this (Some prev) = Inr Deploy"
proof -
  from assms(1) have "fmlookup (currentConfig this) k \<noteq> None"
    by (simp add: fmlookup_dom_iff)
  with assms(1,2) have "configChanged this (Some prev)"
    unfolding configChanged_Some by (intro exI [of _ k]) auto
  with assms(5) show ?thesis
    by (simp add: shouldDeploy_Inr [OF roleChanged_Some [OF assms(3) assms(4)]])
qed

section \<open>The decision\<close>

text \<open>Without a prior instance the decision is \<open>'deploy'\<close>.\<close>

theorem shouldDeploy_first_time: "shouldDeploy this None = Inr Deploy"
  by (simp add: shouldDeploy_def roleChanged_def)

theorem shouldDeploy_first_time_witness: "shouldDeploy fn_a None = Inr Deploy"
  by (rule shouldDeploy_first_time)

text \<open>
  Claim C1, as amended. For every current instance that has its identity reference and
  every prior instance whose \<open>role\<close> can be dereferenced (it is neither \<open>undefined\<close> nor
  \<open>null\<close>): when the prior function name differs from the current one, \<open>shouldDeploy\<close>
  returns \<open>'replace'\<close>, whatever the other fields and the role names are.
\<close>

theorem shouldDeploy_name_change_replaces:
  assumes "role this = Some r"
    and "dot (property prev ''role'') ''roleName'' = Inr prevName"
    and "property prev ''functionName'' \<noteq> Str (functionName this)"
  shows "shouldDeploy this (Some prev) = Inr Replace"
  using assms by (simp add: shouldDeploy_Inr [OF roleChanged_Some])

theorem shouldDeploy_name_change_replaces_witness:
  "shouldDeploy fn_b (Some prior_rearn) = Inr Replace"
proof (rule shouldDeploy_name_change_replaces)
  show "role fn_b = Some role_a" by (simp add: fn_b_def fn_a_def)
  show "dot (property prior_rearn ''role'') ''roleName'' = Inr (Str ''fn-a-execution-role'')"
    by (simp add: prior_rearn_def prior_role_a_def property_def)
  show "property prior_rearn ''functionName'' \<noteq> Str (functionName fn_b)"
    by (simp add: prior_rearn_def prior_a_def property_def fn_b_def fn_a_def)
qed

text \<open>
  Claim C1 as stated fails: the role change is computed before the name is compared, so
  on a prior instance named \<open>fn-a\<close> that has no \<open>role\<close> property the current instance
  named \<open>fn-b\<close> gets a TypeError, not \<open>'replace'\<close>.
\<close>

theorem shouldDeploy_name_change_counterexample:
  "property prior_norole ''functionName'' \<noteq> Str (functionName fn_b)
   \<and> shouldDeploy fn_b (Some prior_norole) = Inl TypeError
   \<and> shouldDeploy fn_b (Some prior_norole) \<noteq> Inr Replace"
  by (simp add: shouldDeploy_def roleChanged_def resolve_def prior_norole_def prior_a_def
      property_def fn_b_def fn_a_def)




text \<open>
  Claim C3, as amended. When the prior instance carries each of the nine normalized fields
  with the value the current instance has, the role names are the same, and the
  environment variables differ, \<open>shouldDeploy\<close> returns neither \<open>'deploy'\<close> nor
  \<open>'replace'\<close>: it falls through.
\<close>

theorem shouldDeploy_ignores_environment:
  assumes "fmlookup prev ''functionName'' = Some (Str (functionName this))"
    and "fmlookup prev ''functionDescription'' = Some (functionDescription this)"
    and "fmlookup prev ''handler'' = Some (handler this)"
    and "fmlookup prev ''code'' = Some (code this)"
    and "fmlookup prev ''runtime'' = Some (runtime this)"
    and "fmlookup prev ''memorySize'' = Some (memorySize this)"
    and "fmlookup prev ''timeout'' = Some (timeout this)"
    and "fmlookup prev ''hash'' = Some (Str (hash this))"
    and "fmlookup prev ''tags'' = Some (tags this)"
    and "role this = Some r"
    and "dot (property prev ''role'') ''roleName'' = Inr (Str (roleName r))"
    and "property prev ''environment'' \<noteq> environment this"
  shows "shouldDeploy this (Some prev) \<noteq> Inr Deploy
       \<and> shouldDeploy this (Some prev) \<noteq> Inr Replace
       \<and> shouldDeploy this (Some prev) = Inr NoOp"
  using shouldDeploy_same_fields [OF assms(1-11)] by simp

theorem shouldDeploy_ignores_environment_witness:
  "property prior_env ''environment'' \<noteq> environment fn_a
   \<and> shouldDeploy fn_a (Some prior_env) \<noteq> Inr Deploy
   \<and> shouldDeploy fn_a (Some prior_env) \<noteq> Inr Replace
   \<and> shouldDeploy fn_a (Some prior_env) = Inr NoOp"
proof -
  have env: "property prior_env ''environment'' \<noteq> environment fn_a"
    by code_simp
  have "shouldDeploy fn_a (Some prior_env) \<noteq> Inr Deploy
       \<and> shouldDeploy fn_a (Some prior_env) \<noteq> Inr Replace
       \<and> shouldDeploy fn_a (Some prior_env) = Inr NoOp"
  proof (rule shouldDeploy_ignores_environment [OF _ _ _ _ _ _ _ _ _ _ _ env])
    show "role fn_a = Some role_a" by (simp add: fn_a_def)
    show "dot (property prior_env ''role'') ''roleName'' = Inr (Str (roleName role_a))"
      by (simp add: prior_env_def prior_a_def prior_role_a_def property_def role_a_def)
  qed (simp_all add: prior_env_def prior_a_def fn_a_def)
  with env show ?thesis by simp
qed

text \<open>
  Claim C3 as stated fails: against a prior instance without a \<open>tags\<close> property, whose
  environment differs, the current instance whose \<open>tags\<close> is \<open>undefined\<close> reads the same
  value in every one of the nine fields and has the same role name, so that the
  environment is the only difference, and \<open>shouldDeploy\<close> returns \<open>'deploy'\<close>.
\<close>

theorem shouldDeploy_ignores_environment_counterexample:
  "property prior_env_notags ''functionName'' = Str (functionName fn_a)
   \<and> property prior_env_notags ''functionDescription'' = functionDescription fn_a
   \<and> property prior_env_notags ''handler'' = handler fn_a
   \<and> property prior_env_notags ''code'' = code fn_a
   \<and> property prior_env_notags ''runtime'' = runtime fn_a
   \<and> property prior_env_notags ''memorySize'' = memorySize fn_a
   \<and> property prior_env_notags ''timeout'' = timeout fn_a
   \<and> property prior_env_notags ''hash'' = Str (hash fn_a)
   \<and> property prior_env_notags ''tags'' = tags fn_a
   \<and> dot (property prior_env_notags ''role'') ''roleName'' = Inr (Str (roleName role_a))
   \<and> role fn_a = Some role_a
   \<and> property prior_env_notags ''environment'' \<noteq> environment fn_a
   \<and> shouldDeploy fn_a (Some prior_env_notags) = Inr Deploy"
proof -
  have k: "''tags'' |\<in>| fmdom (currentConfig fn_a)"
    by (simp add: currentConfig_dom)
  have n: "fmlookup prior_env_notags ''tags'' = None"
    by (simp add: prior_env_notags_def)
  have r: "role fn_a = Some role_a" by (simp add: fn_a_def)
  have d: "dot (property prior_env_notags ''role'') ''roleName'' = Inr (Str (roleName role_a))"
    by (simp add: prior_env_notags_def prior_env_def prior_a_def prior_role_a_def property_def
        role_a_def)
  have f: "property prior_env_notags ''functionName'' = Str (functionName fn_a)"
    by (simp add: prior_env_notags_def prior_env_def prior_a_def property_def fn_a_def)
  have e: "property prior_env_notags ''environment'' \<noteq> environment fn_a"
    by code_simp
  have "shouldDeploy fn_a (Some prior_env_notags) = Inr Deploy"
    using k n r d f by (rule shouldDeploy_absent_field)
  then show ?thesis
    using r d e
    by (simp add: prior_env_notags_def prior_env_def prior_a_def property_def fn_a_def)
qed

text \<open>
  Claim C4. With a prior instance whose \<open>role\<close> is an object, the role counts as changed
  exactly when the prior role's \<open>roleName\<close> is not the current role's name; the remote
  identifiers (\<open>arn\<close>) of the two roles have no influence.
\<close>

theorem roleChanged_compares_names_only:
  assumes "role this = Some r"
    and "property prev ''role'' = Obj prevRole"
  shows "roleChanged this (Some prev) = Inr (property prevRole ''roleName'' \<noteq> Str (roleName r))
       \<and> roleChanged (this\<lparr>role := Some (r\<lparr>role_arn := a\<rparr>)\<rparr>)
            (Some (fmupd ''role'' (Obj (fmupd ''arn'' a' prevRole)) prev))
          = roleChanged this (Some prev)"
  using assms by (auto simp: roleChanged_def resolve_def property_def)

theorem roleChanged_compares_names_only_witness:
  "property prior_rearn ''role'' = Obj (fmupd ''arn'' (Str ''arn:aws:iam::1:role/recreated'') prior_role_a)
   \<and> dot (property prior_rearn ''role'') ''arn'' \<noteq> Inr (role_arn role_a)
   \<and> roleChanged fn_a (Some prior_rearn) = Inr False"
proof -
  have r: "role fn_a = Some role_a" by (simp add: fn_a_def)
  have p: "property prior_rearn ''role'' = Obj (fmupd ''arn'' (Str ''arn:aws:iam::1:role/recreated'') prior_role_a)"
    by (simp add: prior_rearn_def property_def)
  have "dot (property prior_rearn ''role'') ''arn'' \<noteq> Inr (role_arn role_a)"
    unfolding p by (simp add: property_def role_a_def)
  moreover have "roleChanged fn_a (Some prior_rearn) = Inr False"
    using roleChanged_compares_names_only [OF r p]
    by (simp add: property_def prior_role_a_def role_a_def)
  ultimately show ?thesis using p by simp
qed

text \<open>
  Claim C10. On a prior instance without a \<open>role\<close> property \<open>shouldDeploy\<close> faults with a
  TypeError. With a prior instance it returns a decision exactly when the current
  instance has its role and the prior \<open>role\<close> is neither \<open>undefined\<close> nor \<open>null\<close>.
\<close>

theorem shouldDeploy_faults_without_prior_role:
  "(fmlookup prev ''role'' = None \<longrightarrow> shouldDeploy this (Some prev) = Inl TypeError)
   \<and> ((\<exists>d. shouldDeploy this (Some prev) = Inr d) \<longleftrightarrow>
        role this \<noteq> None \<and> property prev ''role'' \<noteq> Undefined \<and> property prev ''role'' \<noteq> Null)"
proof (intro conjI impI)
  assume "fmlookup prev ''role'' = None"
  then have "property prev ''role'' = Undefined" by (simp add: property_def)
  then have "roleChanged this (Some prev) = Inl TypeError"
    by (simp add: roleChanged_fault)
  then show "shouldDeploy this (Some prev) = Inl TypeError" by (rule shouldDeploy_Inl)
next
  show "(\<exists>d. shouldDeploy this (Some prev) = Inr d) \<longleftrightarrow>
        role this \<noteq> None \<and> property prev ''role'' \<noteq> Undefined \<and> property prev ''role'' \<noteq> Null"
  proof (cases "roleChanged this (Some prev)")
    case (Inl e)
    then have "shouldDeploy this (Some prev) = Inl e" by (rule shouldDeploy_Inl)
    moreover from Inl have "role this = None \<or> property prev ''role'' = Undefined \<or> property prev ''role'' = Null"
      by (simp add: roleChanged_fault)
    ultimately show ?thesis by auto
  next
    case (Inr rc)
    then have "\<exists>d. shouldDeploy this (Some prev) = Inr d"
      by (simp add: shouldDeploy_Inr)
    moreover have "\<not> (role this = None \<or> property prev ''role'' = Undefined \<or> property prev ''role'' = Null)"
    proof
      assume "role this = None \<or> property prev ''role'' = Undefined \<or> property prev ''role'' = Null"
      then have "roleChanged this (Some prev) = Inl TypeError" by (simp add: roleChanged_fault)
      with Inr show False by simp
    qed
    ultimately show ?thesis by simp
  qed
qed

theorem shouldDeploy_faults_without_prior_role_witness:
  "fmlookup prior_norole ''role'' = None \<and> shouldDeploy fn_a (Some prior_norole) = Inl TypeError
   \<and> shouldDeploy fn_a (Some prior_a) = Inr NoOp"
proof -
  have n: "fmlookup prior_norole ''role'' = None" by (simp add: prior_norole_def)
  have "shouldDeploy fn_a (Some prior_norole) = Inl TypeError"
    using shouldDeploy_faults_without_prior_role [of prior_norole fn_a] n by blast
  moreover have "shouldDeploy fn_a (Some prior_a) = Inr NoOp"
  proof -
    have "role fn_a \<noteq> None \<and> property prior_a ''role'' \<noteq> Undefined \<and> property prior_a ''role'' \<noteq> Null"
      by (simp add: fn_a_def prior_a_def property_def)
    then obtain d where d: "shouldDeploy fn_a (Some prior_a) = Inr d"
      using shouldDeploy_faults_without_prior_role [of prior_a fn_a] by blast
    have "shouldDeploy fn_a (Some prior_a) = Inr NoOp"
      by (simp add: shouldDeploy_same_fields [where r = role_a and prevName = "Str ''fn-a-execution-role''"]
          fn_a_def prior_a_def prior_role_a_def property_def role_a_def)
    then show ?thesis .
  qed
  ultimately show ?thesis using n by simp
qed

section \<open>Deployment\<close>

lemma pack_keeps:
  assumes "pack w this = Inr packed"
  shows "role packed = role this" and "functionName packed = functionName this"
    and "arn packed = arn this"
  using assms by (auto simp: pack_def Let_def split: sum.splits)

lemma pack_sample: "pack sample_world fn_a = Inr packed_a"
  by (simp add: pack_def sample_world_def fn_a_def packed_a_def archive_all_def sample_fs_def
      isArray_def)

lemma createLambda_Some:
  "role this = Some r \<Longrightarrow>
     createLambda L this =
       ([createFunction (createParams this r)],
        case L (createFunction (createParams this r)) of
          Inl m \<Rightarrow> Inl (Failure m)
        | Inr res \<Rightarrow> Inr (property res ''FunctionArn''))"
  by (simp add: createLambda_def Let_def split: sum.splits)

lemma updateLambda_Some:
  "role this = Some r \<Longrightarrow>
     updateLambda L this =
       (case L (updateFunctionCode (functionCodeParams this)) of
          Inl m \<Rightarrow> ([updateFunctionCode (functionCodeParams this)], Inl (Failure m))
        | Inr u \<Rightarrow>
            ([updateFunctionCode (functionCodeParams this),
              updateFunctionConfiguration (functionConfigParams this r)],
             case L (updateFunctionConfiguration (functionConfigParams this r)) of
               Inl m \<Rightarrow> Inl (Failure m)
             | Inr res \<Rightarrow> Inr (property res ''FunctionArn'')))"
  by (simp add: updateLambda_def Let_def split: sum.splits)

lemma update_params_name:
  "property (functionCodeParams this) ''FunctionName'' = Str (functionName this)"
  "property (functionConfigParams this r) ''FunctionName'' = Str (functionName this)"
  "property (createParams this r) ''FunctionName'' = Str (functionName this)"
  by (simp_all add: functionCodeParams_def functionConfigParams_def createParams_def property_def)

lemma deploy_packed:
  assumes "pack w this = Inr packed"
  shows "deploy w this prevInstance =
     (if (prevInstance = None \<or> get ''functionName'' prevInstance \<noteq> Str (functionName this))
      then \<lparr>calls = fst (createLambda (Lambda w) packed),
            logs = [''Creating Lambda: '' @ functionName this],
            result = map_sum id (\<lambda>a. packed\<lparr>arn := a\<rparr>) (snd (createLambda (Lambda w) packed))\<rparr>
      else \<lparr>calls = fst (updateLambda (Lambda w) packed),
            logs = [''Updating Lambda: '' @ functionName this],
            result = map_sum id (\<lambda>a. packed\<lparr>arn := a\<rparr>) (snd (updateLambda (Lambda w) packed))\<rparr>)"
proof -
  have n: "functionName packed = functionName this" using assms by (rule pack_keeps)
  have c: "(case prevInstance of None \<Rightarrow> True
            | Some prev \<Rightarrow> Str (functionName this) \<noteq> property prev ''functionName'')
           = (prevInstance = None \<or> get ''functionName'' prevInstance \<noteq> Str (functionName this))"
    by (auto simp: get_def split: option.splits)
  show ?thesis
    unfolding deploy_def assms sum.case n c
    by (auto split: prod.splits sum.splits)
qed

lemma deploy_pack_fails:
  "pack w this = Inl e \<Longrightarrow> deploy w this prevInstance = \<lparr>calls = [], logs = [], result = Inl e\<rparr>"
  by (simp add: deploy_def)

lemma get_functionName_prior_a: "get ''functionName'' (Some prior_a) = Str (functionName fn_a)"
  by (simp add: get_def property_def prior_a_def fn_a_def)

text \<open>
  Claim C5, as amended. When packaging succeeds and the instance has its identity
  reference: if there is no prior instance or the current name differs from the prior
  name, the calls issued are exactly one \<open>createFunction\<close>; otherwise
  \<open>updateFunctionCode\<close> is issued first and, when it succeeds,
  \<open>updateFunctionConfiguration\<close> follows, both against the current function name, and no
  \<open>createFunction\<close> is issued.
\<close>

theorem deploy_call_sequence:
  assumes "pack w this = Inr packed" and "role this = Some r"
  shows "((prevInstance = None \<or> get ''functionName'' prevInstance \<noteq> Str (functionName this)) \<longrightarrow>
            calls (deploy w this prevInstance) = [createFunction (createParams packed r)])
       \<and> (\<not> (prevInstance = None \<or> get ''functionName'' prevInstance \<noteq> Str (functionName this)) \<longrightarrow>
            calls (deploy w this prevInstance) =
              (case Lambda w (updateFunctionCode (functionCodeParams packed)) of
                 Inl m \<Rightarrow> [updateFunctionCode (functionCodeParams packed)]
               | Inr u \<Rightarrow> [updateFunctionCode (functionCodeParams packed),
                            updateFunctionConfiguration (functionConfigParams packed r)])
            \<and> property (functionCodeParams packed) ''FunctionName'' = Str (functionName this)
            \<and> property (functionConfigParams packed r) ''FunctionName'' = Str (functionName this))"
proof -
  have r: "role packed = Some r" using assms by (simp add: pack_keeps)
  have n: "functionName packed = functionName this" using assms(1) by (rule pack_keeps)
  show ?thesis
    by (simp add: deploy_packed [OF assms(1)] createLambda_Some [OF r] updateLambda_Some [OF r]
        update_params_name n split: sum.splits)
qed


theorem deploy_call_sequence_witness:
  "calls (deploy sample_world fn_a None) = [createFunction (createParams packed_a role_a)]
   \<and> calls (deploy sample_world fn_a (Some prior_a)) =
       [updateFunctionCode (functionCodeParams packed_a),
        updateFunctionConfiguration (functionConfigParams packed_a role_a)]"
proof -
  have r: "role fn_a = Some role_a" by (simp add: fn_a_def)
  have "calls (deploy sample_world fn_a None) = [createFunction (createParams packed_a role_a)]"
    using deploy_call_sequence [OF pack_sample r, of None] by simp
  moreover have "calls (deploy sample_world fn_a (Some prior_a)) =
       [updateFunctionCode (functionCodeParams packed_a),
        updateFunctionConfiguration (functionConfigParams packed_a role_a)]"
    using deploy_call_sequence [OF pack_sample r, of "Some prior_a"]
    by (simp add: get_functionName_prior_a sample_world_def)
  ultimately show ?thesis by simp
qed

text \<open>
  Claim C5 as stated fails: when packaging fails no call is issued at all, and when
  \<open>updateFunctionCode\<close> is rejected the configuration update is never issued.
\<close>

theorem deploy_call_sequence_counterexample:
  "calls (deploy pack_fails_world fn_a None) = []
   \<and> calls (deploy code_update_fails_world fn_a (Some prior_a)) =
       [updateFunctionCode (functionCodeParams packed_a)]"
proof -
  have "pack pack_fails_world fn_a = Inl (Failure ''EACCES'')"
    by (simp add: pack_def pack_fails_world_def sample_world_def)
  then have "calls (deploy pack_fails_world fn_a None) = []"
    by (simp add: deploy_pack_fails)
  moreover have "pack code_update_fails_world fn_a = Inr packed_a"
    using pack_sample by (simp add: pack_def code_update_fails_world_def)
  then have "calls (deploy code_update_fails_world fn_a (Some prior_a)) =
       [updateFunctionCode (functionCodeParams packed_a)]"
    by (simp add: deploy_packed get_functionName_prior_a
        updateLambda_Some [where r = role_a] packed_a_def fn_a_def code_update_fails_world_def)
  ultimately show ?thesis by simp
qed

text \<open>
  Claim C6, as amended. When packaging succeeds and the instance has its identity
  reference: on the create branch, if \<open>createFunction\<close> succeeds, and on the update branch,
  if \<open>updateFunctionCode\<close> and \<open>updateFunctionConfiguration\<close> both succeed, \<open>deploy\<close>
  completes with the instance whose identifier (\<open>getId\<close>) is the \<open>FunctionArn\<close> of the
  response of \<open>createFunction\<close>, respectively of \<open>updateFunctionConfiguration\<close>.
\<close>

theorem deploy_identifier:
  assumes "pack w this = Inr packed" and "role this = Some r"
  shows "(prevInstance = None \<or> get ''functionName'' prevInstance \<noteq> Str (functionName this) \<longrightarrow>
           (\<forall>res. Lambda w (createFunction (createParams packed r)) = Inr res \<longrightarrow>
              (\<exists>this'. result (deploy w this prevInstance) = Inr this'
                 \<and> getId this' = property res ''FunctionArn'')))
       \<and> (\<not> (prevInstance = None \<or> get ''functionName'' prevInstance \<noteq> Str (functionName this)) \<longrightarrow>
           (\<forall>u res. Lambda w (updateFunctionCode (functionCodeParams packed)) = Inr u \<longrightarrow>
              Lambda w (updateFunctionConfiguration (functionConfigParams packed r)) = Inr res \<longrightarrow>
              (\<exists>this'. result (deploy w this prevInstance) = Inr this'
                 \<and> getId this' = property res ''FunctionArn'')))"
proof -
  have r: "role packed = Some r" using assms by (simp add: pack_keeps)
  show ?thesis
    by (auto simp: deploy_packed [OF assms(1)] createLambda_Some [OF r] updateLambda_Some [OF r]
        getId_def)
qed

theorem deploy_identifier_witness:
  "(\<exists>this'. result (deploy sample_world fn_a None) = Inr this'
      \<and> getId this' = Str ''arn:aws:lambda:us-east-1:1:function:fn-a'')
   \<and> (\<exists>this'. result (deploy sample_world fn_a (Some prior_a)) = Inr this'
      \<and> getId this' = Str ''arn:aws:lambda:us-east-1:1:function:fn-a'')"
proof -
  have r: "role fn_a = Some role_a" by (simp add: fn_a_def)
  have L: "\<And>c. Lambda sample_world c = Inr response_a" by (simp add: sample_world_def)
  have a: "property response_a ''FunctionArn'' = Str ''arn:aws:lambda:us-east-1:1:function:fn-a''"
    by (simp add: response_a_def property_def)
  have "\<exists>this'. result (deploy sample_world fn_a None) = Inr this'
      \<and> getId this' = property response_a ''FunctionArn''"
    using deploy_identifier [OF pack_sample r, of None] L by blast
  moreover have "\<exists>this'. result (deploy sample_world fn_a (Some prior_a)) = Inr this'
      \<and> getId this' = property response_a ''FunctionArn''"
    using deploy_identifier [OF pack_sample r, of "Some prior_a"] L get_functionName_prior_a
    by blast
  ultimately show ?thesis unfolding a by simp
qed

text \<open>
  Claim C6 as stated fails: a provider call (\<open>updateFunctionCode\<close>) succeeds, the
  configuration update is rejected, and \<open>deploy\<close> raises instead of yielding an identifier.
\<close>

theorem deploy_identifier_counterexample:
  "Lambda config_update_fails_world (updateFunctionCode (functionCodeParams packed_a))
     = Inr response_a
   \<and> result (deploy config_update_fails_world fn_a (Some prior_a))
     = Inl (Failure ''InvalidParameterValueException'')"
proof -
  have "pack config_update_fails_world fn_a = Inr packed_a"
    using pack_sample by (simp add: pack_def config_update_fails_world_def)
  then have "result (deploy config_update_fails_world fn_a (Some prior_a))
     = Inl (Failure ''InvalidParameterValueException'')"
    by (simp add: deploy_packed get_functionName_prior_a
        updateLambda_Some [where r = role_a] packed_a_def fn_a_def config_update_fails_world_def)
  then show ?thesis by (simp add: config_update_fails_world_def)
qed


section \<open>Removal\<close>

lemma includes_str_sublist: "includes_str s pat \<longleftrightarrow> sublist pat s"
  by (induction s) (simp_all add: sublist_Cons_right)

lemma remove_result:
  "result (remove w this) =
     (case Lambda w (deleteFunction (fmap_of_list [(''FunctionName'', Str (functionName this))])) of
        Inr res \<Rightarrow> Inr ()
      | Inl m \<Rightarrow>
          if includes_str m ''Function not found'' then Inr () else Inl (ErrorOf (Failure m)))"
  by (simp add: remove_def deleteLambda_def Let_def split: sum.splits)

text \<open>
  Claim C7. \<open>remove\<close> completes without an error exactly when \<open>deleteFunction\<close> succeeds or
  is rejected with a message that contains \<open>Function not found\<close>; on any other rejection
  it raises \<open>new Error(error)\<close>, the caught error wrapped.
\<close>

theorem remove_tolerates_not_found:
  "(result (remove w this) = Inr () \<longleftrightarrow>
      (\<exists>res. Lambda w (deleteFunction (fmap_of_list [(''FunctionName'', Str (functionName this))]))
         = Inr res)
      \<or> (\<exists>m. Lambda w (deleteFunction (fmap_of_list [(''FunctionName'', Str (functionName this))]))
           = Inl m \<and> includes_str m ''Function not found''))
   \<and> (\<forall>m. Lambda w (deleteFunction (fmap_of_list [(''FunctionName'', Str (functionName this))]))
           = Inl m \<longrightarrow> \<not> includes_str m ''Function not found'' \<longrightarrow>
         result (remove w this) = Inl (ErrorOf (Failure m)))"
  unfolding remove_result by (auto split: sum.splits)

lemma not_found_message:
  "includes_str ''ResourceNotFoundException: Function not found: fn-a'' ''Function not found''"
  by simp

lemma denied_message: "\<not> includes_str ''AccessDeniedException'' ''Function not found''"
  by simp

theorem remove_tolerates_not_found_witness:
  "result (remove not_found_world fn_a) = Inr ()
   \<and> result (remove sample_world fn_a) = Inr ()
   \<and> result (remove denied_world fn_a) = Inl (ErrorOf (Failure ''AccessDeniedException''))"
proof -
  have "result (remove not_found_world fn_a) = Inr ()"
    using remove_tolerates_not_found [of not_found_world fn_a] not_found_message
    by (simp add: not_found_world_def)
  moreover have "result (remove sample_world fn_a) = Inr ()"
    using remove_tolerates_not_found [of sample_world fn_a]
    by (simp add: sample_world_def)
  moreover have "result (remove denied_world fn_a) = Inl (ErrorOf (Failure ''AccessDeniedException''))"
    using remove_tolerates_not_found [of denied_world fn_a] denied_message
    by (simp add: denied_world_def)
  ultimately show ?thesis by simp
qed

section \<open>The fingerprint\<close>

lemma construct_Inr:
  assumes "construct super_construct w inputs = Inr this"
  shows "hashElement w (fs w) (folderToHash (in_code inputs)) options = Inr (hash this)"
    and "code this = in_code inputs"
  using assms by (auto simp: construct_def Let_def resolve_def split: sum.splits)

lemma hydrate_hash: "hash (hydrate super_hydrate this prevInstance) = hash (super_hydrate this prevInstance)"
  by (simp add: hydrate_def)

lemma visible_sample:
  "visible [''node_modules''] (sample_fs p) =
     (if p = ''./code'' then [(''index.js'', ''exports.handler = run'')] else [])"
  "visible [''node_modules''] (sample_fs_upgraded p) =
     (if p = ''./code'' then [(''index.js'', ''exports.handler = run'')] else [])"
  by (simp_all add: visible_def sample_fs_def sample_fs_upgraded_def in_folder_def)

lemma construct_sample: "construct base_construct sample_world inputs_a = Inr constructed_a"
  by (simp add: construct_def base_construct_def sample_world_def inputs_a_def resolve_def
      folderToHash_def isArray_def index0_def options_def hash_visible_def visible_sample
      constructed_a_def)

lemma base_hydrate_hash: "hash (base_hydrate t p) = hash t"
  by (simp add: base_hydrate_def split: jsval.splits)

lemma honours_exclusion_hash_visible: "honours_exclusion hash_visible"
  unfolding honours_exclusion_def hash_visible_def
  by (auto split: jsval.splits)

lemma pack_Inr:
  assumes "pack w this = Inr packed"
  shows "\<exists>archive.
           packDir w (fs w) (folderToHash (code this))
             (path_join (tmpdir w) (instanceId this @ ''-'' @ now w @ ''.zip''))
             (if isArray (code this) then shifted (code this) else []) = Inr archive
           \<and> packed = this\<lparr>zipBuffer := Buffer archive\<rparr>"
  using assms by (auto simp: pack_def Let_def folderToHash_def split: sum.splits)

text \<open>
  Claim C8. \<open>construct\<close> computes the fingerprint from the code location of the inputs;
  \<open>hydrate\<close> takes the remote identifier from the prior instance and, the base class's
  \<open>hydrate\<close> leaving the fingerprint alone, not the fingerprint: the \<open>hash\<close> that
  \<open>shouldDeploy\<close> compares is the one computed by \<open>construct\<close>, whatever the prior instance
  holds.
\<close>

theorem fingerprint_recomputed:
  assumes "construct super_construct w inputs = Inr this"
    and "\<forall>t p. hash (super_hydrate t p) = hash t"
  shows "hashElement w (fs w) (folderToHash (in_code inputs)) options
           = Inr (hash (hydrate super_hydrate this prevInstance))
       \<and> fmlookup (currentConfig (hydrate super_hydrate this prevInstance)) ''hash''
           = Some (Str (hash this))
       \<and> arn (hydrate super_hydrate this prevInstance) = get ''arn'' prevInstance"
  using construct_Inr(1) [OF assms(1)] assms(2)
  by (simp add: hydrate_hash currentConfig_at) (simp add: hydrate_def)

theorem fingerprint_recomputed_witness:
  "hash (hydrate base_hydrate constructed_a (Some prior_stale_hash)) = ''index.js:exports.handler = run;''
   \<and> property prior_stale_hash ''hash'' = Str ''stale''
   \<and> fmlookup (currentConfig (hydrate base_hydrate constructed_a (Some prior_stale_hash))) ''hash''
       = Some (Str ''index.js:exports.handler = run;'')
   \<and> arn (hydrate base_hydrate constructed_a (Some prior_stale_hash))
       = Str ''arn:aws:lambda:us-east-1:1:function:fn-a''"
proof -
  have h: "\<forall>t p. hash (base_hydrate t p) = hash t" by (simp add: base_hydrate_hash)
  have e: "hashElement sample_world (fs sample_world) (folderToHash (in_code inputs_a)) options
      = Inr ''index.js:exports.handler = run;''"
    by (simp add: sample_world_def inputs_a_def folderToHash_def isArray_def index0_def
        options_def hash_visible_def visible_sample)
  have g: "get ''arn'' (Some prior_stale_hash) = Str ''arn:aws:lambda:us-east-1:1:function:fn-a''"
    by (simp add: get_def property_def prior_stale_hash_def prior_a_def)
  have s: "property prior_stale_hash ''hash'' = Str ''stale''"
    by (simp add: property_def prior_stale_hash_def)
  show ?thesis
    using fingerprint_recomputed [OF construct_sample h, of "Some prior_stale_hash"] e g s
    by (simp add: constructed_a_def)
qed

text \<open>
  Claim C9, as amended. \<open>construct\<close> passes the exclusion list \<open>node_modules\<close> to the
  fingerprint collaborator: with a collaborator that honours its exclusion list, what lies
  below a \<open>node_modules\<close> folder has no influence on the constructed instance. \<open>pack\<close>
  passes the code directory, the output path and the shims to the archive collaborator,
  with no exclusion list, and keeps the archive it produced as it is.
\<close>

theorem fingerprint_excludes_node_modules:
  assumes "honours_exclusion (hashElement w)"
    and "\<forall>p. visible [''node_modules''] (f' p) = visible [''node_modules''] (fs w p)"
  shows "construct super_construct (w\<lparr>fs := f'\<rparr>) inputs = construct super_construct w inputs
       \<and> (\<forall>packed. pack w this = Inr packed \<longrightarrow>
            (\<exists>archive.
               packDir w (fs w) (folderToHash (code this))
                 (path_join (tmpdir w) (instanceId this @ ''-'' @ now w @ ''.zip''))
                 (if isArray (code this) then shifted (code this) else []) = Inr archive
               \<and> zipBuffer packed = Buffer archive))"
proof (intro conjI allI impI)
  have "\<And>d. hashElement w f' d options = hashElement w (fs w) d options"
    using assms by (simp add: honours_exclusion_def options_def)
  then show "construct super_construct (w\<lparr>fs := f'\<rparr>) inputs = construct super_construct w inputs"
    by (cases "super_construct inputs") (simp_all add: construct_def Let_def)
next
  fix packed assume "pack w this = Inr packed"
  from pack_Inr [OF this]
  show "\<exists>archive.
               packDir w (fs w) (folderToHash (code this))
                 (path_join (tmpdir w) (instanceId this @ ''-'' @ now w @ ''.zip''))
                 (if isArray (code this) then shifted (code this) else []) = Inr archive
               \<and> zipBuffer packed = Buffer archive"
    by auto
qed

theorem fingerprint_excludes_node_modules_witness:
  "construct base_construct (sample_world\<lparr>fs := sample_fs_upgraded\<rparr>) inputs_a = Inr constructed_a
   \<and> sample_fs_upgraded ''./code'' \<noteq> sample_fs ''./code''
   \<and> zipBuffer packed_a = Buffer (sample_fs ''./code'')"
proof -
  have h: "honours_exclusion (hashElement sample_world)"
    by (simp add: sample_world_def honours_exclusion_hash_visible)
  have v: "\<forall>p. visible [''node_modules''] (sample_fs_upgraded p)
             = visible [''node_modules''] (fs sample_world p)"
    by (simp add: sample_world_def visible_sample)
  have "construct base_construct (sample_world\<lparr>fs := sample_fs_upgraded\<rparr>) inputs_a
      = Inr constructed_a"
    using fingerprint_excludes_node_modules [OF h v, of base_construct inputs_a]
    by (simp add: construct_sample)
  moreover have "sample_fs_upgraded ''./code'' \<noteq> sample_fs ''./code''"
    by (simp add: sample_fs_def sample_fs_upgraded_def)
  moreover have "zipBuffer packed_a = Buffer (sample_fs ''./code'')"
    by (simp add: packed_a_def sample_fs_def)
  ultimately show ?thesis by simp
qed

text \<open>
  Claim C9 as stated fails for packaging: with an archive collaborator that archives the
  files below the directory it is given, the archive \<open>pack\<close> keeps holds the files below
  \<open>node_modules\<close>.
\<close>

theorem pack_keeps_node_modules_counterexample:
  "pack sample_world fn_a = Inr packed_a
   \<and> zipBuffer packed_a =
       Buffer [(''index.js'', ''exports.handler = run''),
               (''node_modules/dep/index.js'', ''dep v1'')]
   \<and> in_folder ''node_modules'' ''node_modules/dep/index.js''"
  by (simp add: pack_sample packed_a_def in_folder_def)


end
